theory Spec2Isabelle
  imports Complex_Main "HOL-Library.Char_ord" "HOL-Library.List_Lexorder"
begin

section \<open>The batch exporter of batch\_import\_data.py\<close>

text \<open>
  A shallow embedding of \<^verbatim>\<open>batch_import_bigquery_data\<close> and
  \<^verbatim>\<open>create_sample_from_batches\<close>. A data frame is the list of its rows; the
  code never looks inside a row, so the row type is a parameter. The count that the
  count query returns, the batch size and every number computed from them are Python
  integers (\<open>int\<close>); \<open>//\<close> is floor division, which is \<open>div\<close> on \<open>int\<close>, and a
  zero divisor raises. Wall-clock times are left out.
\<close>

subsection \<open>Values, errors, queries\<close>

type_synonym 'r dataframe = "'r list"

datatype error = QueryFailed | IOFailed | ZeroDivisionError

text \<open>
  Python values a caller can get back: a boolean, \<^verbatim>\<open>None\<close>, or an object with
  named fields. The two procedures return only the first two.
\<close>

datatype py_value = PyBool bool | PyNone | PyObject "(string \<times> py_value) list"

text \<open>
  The text of a batch query is fixed but for the two numbers put into it; the record
  keeps the columns read, the columns of the predicate, the ordering key and the two
  numbers.
\<close>

record sql_query =
  select_cols :: "string list"
  not_null :: "string list"
  order_by :: "string list"
  limit :: int
  offset :: int

definition OUTPUT_DIR :: string where
  "OUTPUT_DIR = ''batch_data''"

definition batch_query :: "int \<Rightarrow> int \<Rightarrow> sql_query" where
  "batch_query batch_size off =
     \<lparr>select_cols = [''cep'', ''latitude'', ''longitude''],
      not_null = [''cep'', ''latitude'', ''longitude''],
      order_by = [''cep'', ''latitude'', ''longitude''],
      limit = batch_size, offset = off\<rparr>"

subsection \<open>File names\<close>

definition digit_char :: "nat \<Rightarrow> char" where
  "digit_char d = ''0123456789'' ! d"

fun dec :: "nat \<Rightarrow> string" where
  "dec n = (if n < 10 then [digit_char n] else dec (n div 10) @ [digit_char (n mod 10)])"

declare dec.simps [simp del]

definition zfill :: "nat \<Rightarrow> string \<Rightarrow> string" where
  "zfill w s = replicate (w - length s) (CHR ''0'') @ s"

text \<open>The format \<^verbatim>\<open>{n:04d}\<close> of a number that is not negative.\<close>

definition fmt_04d :: "nat \<Rightarrow> string" where
  "fmt_04d n = zfill 4 (dec n)"

text \<open>The format \<^verbatim>\<open>{n:,}\<close>: decimal digits in groups of three, with commas.\<close>

fun fmt_comma :: "nat \<Rightarrow> string" where
  "fmt_comma n =
     (if n < 1000 then dec n
      else fmt_comma (n div 1000) @ '','' @ zfill 3 (dec (n mod 1000)))"

declare fmt_comma.simps [simp del]

text \<open>
  \<^verbatim>\<open>f"{OUTPUT_DIR}/batch_{batch_num + 1:04d}_{len(df_batch):,}_rows.csv"\<close>; the second
  argument is \<^verbatim>\<open>len(df_batch)\<close>.
\<close>

definition batch_filename :: "nat \<Rightarrow> nat \<Rightarrow> string" where
  "batch_filename batch_num n =
     OUTPUT_DIR @ ''/batch_'' @ fmt_04d (batch_num + 1) @ ''_'' @ fmt_comma n @ ''_rows.csv''"

definition combined_filename :: string where
  "combined_filename = ''bigquery_all_data_combined.csv''"


subsection \<open>The collaborators and the state of a run\<close>

text \<open>
  The query client and the file writer are outside the program. A run is sequential and
  makes at most one batch query and one batch write in each pass of its loop, so their
  answers are given per pass: \<open>fetch env i q\<close> is what
  \<^verbatim>\<open>client.query(batch_query).to_dataframe()\<close> does in pass \<open>i\<close> (an exception or
  a data frame), \<open>to_csv env i path df\<close> whether the write of that pass raises. A write
  that raises leaves no file.
\<close>

record 'r env =
  count_rows :: "error + int"
  dir_exists :: bool
  makedirs :: "error option"
  fetch :: "nat \<Rightarrow> sql_query \<Rightarrow> error + 'r dataframe"
  to_csv :: "nat \<Rightarrow> string \<Rightarrow> 'r dataframe \<Rightarrow> error option"
  combined_to_csv :: "string \<Rightarrow> 'r dataframe \<Rightarrow> error option"

text \<open>The lines a run prints, without their decoration and without the times.\<close>

datatype msg =
    CountingRows
  | TotalRows int
  | WillProcess int int
  | CreatedDir string
  | ProcessingBatch nat
  | ZeroRowsStop nat
  | BatchCompleted nat nat string
  | ErrorInBatch nat error
  | ProcessingCompleted
  | CreatingCombined
  | CombinedSaved string nat

text \<open>
  What a run has done so far: the batch queries it has sent (oldest first), the
  directories it has made, the files it has written (oldest first), the frames kept
  in \<^verbatim>\<open>all_data\<close>, and the lines printed.
\<close>

record 'r state =
  queries :: "sql_query list"
  made_dirs :: "string list"
  files :: "(string \<times> 'r dataframe) list"
  all_data :: "'r dataframe list"
  printed :: "msg list"

definition say :: "msg \<Rightarrow> 'r state \<Rightarrow> 'r state" where
  "say m s = s\<lparr>printed := printed s @ [m]\<rparr>"

subsection \<open>The loop over the batches\<close>

text \<open>
  One pass of \<^verbatim>\<open>for batch_num in range(num_batches)\<close>: the state after it, and
  whether the loop leaves (\<^verbatim>\<open>break\<close>) or goes on. The branches follow the
  \<^verbatim>\<open>try\<close> block: the query, the test for zero rows, the write, the progress
  figure (a division by \<^verbatim>\<open>total_rows\<close>), the append to \<^verbatim>\<open>all_data\<close>. Every
  exception is printed and the loop goes on (\<^verbatim>\<open>continue\<close>).
\<close>

datatype control = Break | Continue

definition batch_pass ::
    "'r env \<Rightarrow> int \<Rightarrow> int \<Rightarrow> nat \<Rightarrow> 'r state \<Rightarrow> control \<times> 'r state" where
  "batch_pass env batch_size total_rows batch_num s =
     (let off = int batch_num * batch_size;
          q = batch_query batch_size off;
          s1 = (say (ProcessingBatch (batch_num + 1)) s)\<lparr>queries := queries s @ [q]\<rparr>
      in case fetch env batch_num q of
           Inl e \<Rightarrow> (Continue, say (ErrorInBatch (batch_num + 1) e) s1)
         | Inr df_batch \<Rightarrow>
             if length df_batch = 0 then (Break, say (ZeroRowsStop (batch_num + 1)) s1)
             else
               (let fname = batch_filename batch_num (length df_batch)
                in case to_csv env batch_num fname df_batch of
                     Some e \<Rightarrow> (Continue, say (ErrorInBatch (batch_num + 1) e) s1)
                   | None \<Rightarrow>
                       (let s2 = s1\<lparr>files := files s1 @ [(fname, df_batch)]\<rparr>
                        in if total_rows = 0 then
                             (Continue, say (ErrorInBatch (batch_num + 1) ZeroDivisionError) s2)
                           else
                             (Continue,
                              (say (BatchCompleted (batch_num + 1) (length df_batch) fname) s2)
                                \<lparr>all_data := all_data s2 @ [df_batch]\<rparr>))))"

text \<open>The loop, over the indices still to come.\<close>

fun batch_loop :: "'r env \<Rightarrow> int \<Rightarrow> int \<Rightarrow> nat list \<Rightarrow> 'r state \<Rightarrow> 'r state" where
  "batch_loop env batch_size total_rows [] s = s"
| "batch_loop env batch_size total_rows (batch_num # rest) s =
     (case batch_pass env batch_size total_rows batch_num s of
        (Break, s') \<Rightarrow> s'
      | (Continue, s') \<Rightarrow> batch_loop env batch_size total_rows rest s')"

subsection \<open>The export procedure\<close>

definition num_batches :: "int \<Rightarrow> int \<Rightarrow> int" where
  "num_batches total_rows batch_size = (total_rows + batch_size - 1) div batch_size"

definition init_state :: "'r state" where
  "init_state = \<lparr>queries = [], made_dirs = [], files = [], all_data = [], printed = []\<rparr>"

text \<open>
  The part after the loop: \<^verbatim>\<open>if all_data:\<close> with the write of the combined file
  and the \<^verbatim>\<open>del\<close> of the frames, and the \<^verbatim>\<open>return True\<close>.
\<close>

definition combine_phase :: "'r env \<Rightarrow> 'r state \<Rightarrow> (error + py_value) \<times> 'r state" where
  "combine_phase env s =
     (if all_data s \<noteq> [] then
        (let s1 = say CreatingCombined s;
             combined_df = concat (all_data s)
         in case combined_to_csv env combined_filename combined_df of
              Some e \<Rightarrow> (Inl e, s1)
            | None \<Rightarrow>
                (Inr (PyBool True),
                 (say (CombinedSaved combined_filename (length combined_df)) s1)
                   \<lparr>files := files s1 @ [(combined_filename, combined_df)], all_data := []\<rparr>))
      else (Inr (PyBool True), s))"

text \<open>
  \<^verbatim>\<open>if not os.path.exists(OUTPUT_DIR): os.makedirs(OUTPUT_DIR)\<close>, with the line it
  prints; an exception of \<^verbatim>\<open>os.makedirs\<close> is the result.
\<close>

definition ensure_dir :: "'r env \<Rightarrow> 'r state \<Rightarrow> error + 'r state" where
  "ensure_dir env s =
     (if \<not> dir_exists env then
        (case makedirs env of
           Some e \<Rightarrow> Inl e
         | None \<Rightarrow> Inr ((say (CreatedDir OUTPUT_DIR) s)\<lparr>made_dirs := made_dirs s @ [OUTPUT_DIR]\<rparr>))
      else Inr s)"

text \<open>
  The procedure gives the value it returns, or the exception that leaves it, and the
  state reached. An exception outside the loop's \<^verbatim>\<open>try\<close> leaves the procedure: of
  the count query, of the division by a batch size of zero, of the making of the
  directory, of the write of the combined file. The client is taken as made.
\<close>

definition batch_import_bigquery_data ::
    "'r env \<Rightarrow> int \<Rightarrow> (error + py_value) \<times> 'r state" where
  "batch_import_bigquery_data env batch_size =
     (let s0 = say CountingRows init_state
      in case count_rows env of
           Inl e \<Rightarrow> (Inl e, s0)
         | Inr total_rows \<Rightarrow>
             (let s1 = say (TotalRows total_rows) s0
              in if batch_size = 0 then (Inl ZeroDivisionError, s1)
                 else
                   (let n = num_batches total_rows batch_size;
                        s2 = say (WillProcess n batch_size) s1
                    in case ensure_dir env s2 of
                         Inl e \<Rightarrow> (Inl e, s2)
                       | Inr s3 \<Rightarrow>
                           (let s4 = batch_loop env batch_size total_rows [0..<nat n] s3
                            in combine_phase env (say ProcessingCompleted s4)))))"

subsection \<open>The sampling procedure\<close>











subsection \<open>Notions of the statements\<close>

text \<open>
  Read off the collaborators' answers, for the pass with index \<open>i\<close> of a run with batch
  size \<open>batch_size\<close>: whether its query returns zero rows, the file it writes, the frame
  it appends to \<^verbatim>\<open>all_data\<close>, the exception of its query or its write.
\<close>

definition zero_rows :: "'r env \<Rightarrow> int \<Rightarrow> nat \<Rightarrow> bool" where
  "zero_rows env batch_size i = (fetch env i (batch_query batch_size (int i * batch_size)) = Inr [])"

text \<open>
  Of the indices \<open>idxs\<close> still to come, the passes that run to their end (those before
  the first query with zero rows), and the passes that are started (these and the one
  that stops the loop).
\<close>

definition passed :: "'r env \<Rightarrow> int \<Rightarrow> nat list \<Rightarrow> nat list" where
  "passed env batch_size idxs = takeWhile (\<lambda>i. \<not> zero_rows env batch_size i) idxs"

definition attempted :: "'r env \<Rightarrow> int \<Rightarrow> nat list \<Rightarrow> nat list" where
  "attempted env batch_size idxs = take (Suc (length (passed env batch_size idxs))) idxs"

text \<open>What pass \<open>i\<close> writes into the batch directory: a path and a frame, or nothing.\<close>

definition written :: "'r env \<Rightarrow> int \<Rightarrow> nat \<Rightarrow> (string \<times> 'r dataframe) option" where
  "written env batch_size i =
     (case fetch env i (batch_query batch_size (int i * batch_size)) of
        Inl e \<Rightarrow> None
      | Inr df \<Rightarrow>
          if df \<noteq> [] \<and> to_csv env i (batch_filename i (length df)) df = None
          then Some (batch_filename i (length df), df) else None)"

text \<open>
  The frame that pass \<open>i\<close> appends to \<^verbatim>\<open>all_data\<close>: the frame written, when the
  progress figure can be computed.
\<close>

definition succeeded :: "'r env \<Rightarrow> int \<Rightarrow> int \<Rightarrow> nat \<Rightarrow> 'r dataframe option" where
  "succeeded env batch_size total_rows i =
     (if total_rows = 0 then None else map_option snd (written env batch_size i))"

text \<open>The exception of the query or of the write of pass \<open>i\<close>.\<close>

definition raised :: "'r env \<Rightarrow> int \<Rightarrow> nat \<Rightarrow> error option" where
  "raised env batch_size i =
     (case fetch env i (batch_query batch_size (int i * batch_size)) of
        Inl e \<Rightarrow> Some e
      | Inr df \<Rightarrow> if df = [] then None else to_csv env i (batch_filename i (length df)) df)"

text \<open>The lines that the pass with index \<open>i\<close> prints.\<close>

definition pass_lines :: "'r env \<Rightarrow> int \<Rightarrow> int \<Rightarrow> nat \<Rightarrow> msg list" where
  "pass_lines env batch_size total_rows i =
     [ProcessingBatch (i + 1),
      (case fetch env i (batch_query batch_size (int i * batch_size)) of
         Inl e \<Rightarrow> ErrorInBatch (i + 1) e
       | Inr df \<Rightarrow>
           if df = [] then ZeroRowsStop (i + 1)
           else (case to_csv env i (batch_filename i (length df)) df of
                   Some e \<Rightarrow> ErrorInBatch (i + 1) e
                 | None \<Rightarrow>
                     if total_rows = 0 then ErrorInBatch (i + 1) ZeroDivisionError
                     else BatchCompleted (i + 1) (length df) (batch_filename i (length df))))]"

text \<open>The batch directory is there or can be made.\<close>

definition dir_ok :: "'r env \<Rightarrow> bool" where
  "dir_ok env = (dir_exists env \<or> makedirs env = None)"

text \<open>The indices of \<^verbatim>\<open>range(num_batches)\<close>.\<close>

definition planned :: "int \<Rightarrow> int \<Rightarrow> nat list" where
  "planned total_rows batch_size = [0..<nat (num_batches total_rows batch_size)]"

text \<open>The state in which the loop starts, when the directory is there or can be made.\<close>

definition loop_start :: "'r env \<Rightarrow> int \<Rightarrow> int \<Rightarrow> 'r state" where
  "loop_start env batch_size total_rows =
     (case ensure_dir env
             (say (WillProcess (num_batches total_rows batch_size) batch_size)
                (say (TotalRows total_rows) (say CountingRows init_state))) of
        Inl e \<Rightarrow> init_state
      | Inr s \<Rightarrow> s)"

text \<open>The frames that a run keeps in \<^verbatim>\<open>all_data\<close>, in the order of the passes.\<close>

definition kept :: "'r env \<Rightarrow> int \<Rightarrow> int \<Rightarrow> 'r dataframe list" where
  "kept env batch_size total_rows =
     List.map_filter (succeeded env batch_size total_rows)
       (passed env batch_size (planned total_rows batch_size))"

text \<open>A path in the batch directory.\<close>

definition in_output_dir :: "string \<Rightarrow> bool" where
  "in_output_dir p = (take (length OUTPUT_DIR + 1) p = OUTPUT_DIR @ ''/'')"

definition batch_artifacts :: "'r state \<Rightarrow> (string \<times> 'r dataframe) list" where
  "batch_artifacts s = filter (\<lambda>f. in_output_dir (fst f)) (files s)"

text \<open>
  What a query with \<^verbatim>\<open>LIMIT\<close> and \<^verbatim>\<open>OFFSET\<close> returns over a source that holds the
  rows \<open>src\<close>, filtered and in the order of the key.
\<close>

definition expected_slice :: "'r list \<Rightarrow> sql_query \<Rightarrow> 'r dataframe" where
  "expected_slice src q = take (nat (limit q)) (drop (nat (offset q)) src)"





subsection \<open>The contract in the words of the specification\<close>




subsection \<open>Collaborators of the examples\<close>

text \<open>
  A source with the rows \<open>src\<close> that answers every query with its slice, and a file
  system on which no write raises and the batch directory is yet to be made.
\<close>

definition honest_env :: "'r list \<Rightarrow> 'r env" where
  "honest_env src =
     \<lparr>count_rows = Inr (int (length src)), dir_exists = False, makedirs = None,
      fetch = (\<lambda>i q. Inr (expected_slice src q)),
      to_csv = (\<lambda>i p d. None), combined_to_csv = (\<lambda>p d. None)\<rparr>"

text \<open>Five rows, and every batch query raises.\<close>

definition broken_env :: "nat env" where
  "broken_env = (honest_env [1, 2, 3, 4, 5])\<lparr>fetch := (\<lambda>i q. Inl QueryFailed)\<rparr>"

text \<open>Four rows, of which the count query reports six.\<close>

definition racing_env :: "nat env" where
  "racing_env = (honest_env [1, 2, 3, 4])\<lparr>count_rows := Inr 6\<rparr>"

text \<open>Five rows, and the query of the second pass raises.\<close>

definition flaky_env :: "nat env" where
  "flaky_env =
     (honest_env [1, 2, 3, 4, 5])
       \<lparr>fetch := (\<lambda>i q. if i = 1 then Inl QueryFailed else Inr (expected_slice [1, 2, 3, 4, 5] q))\<rparr>"



section \<open>The loop and the run\<close>

subsection \<open>One pass\<close>

lemma pass_control:
  "fst (batch_pass env B R i s) = (if zero_rows env B i then Break else Continue)"
  by (simp add: batch_pass_def Let_def zero_rows_def split: sum.splits option.splits)

lemma pass_queries:
  "queries (snd (batch_pass env B R i s)) = queries s @ [batch_query B (int i * B)]"
  by (simp add: batch_pass_def Let_def say_def split: sum.splits option.splits)

lemma pass_files:
  "files (snd (batch_pass env B R i s)) =
     files s @ (case written env B i of None \<Rightarrow> [] | Some f \<Rightarrow> [f])"
  by (simp add: batch_pass_def Let_def say_def written_def split: sum.splits option.splits)

lemma pass_all_data:
  "all_data (snd (batch_pass env B R i s)) =
     all_data s @ (case succeeded env B R i of None \<Rightarrow> [] | Some df \<Rightarrow> [df])"
  by (simp add: batch_pass_def Let_def say_def written_def succeeded_def
      split: sum.splits option.splits)

lemma pass_made_dirs: "made_dirs (snd (batch_pass env B R i s)) = made_dirs s"
  by (simp add: batch_pass_def Let_def say_def split: sum.splits option.splits)

lemma pass_printed:
  "printed (snd (batch_pass env B R i s)) = printed s @ pass_lines env B R i"
  by (simp add: batch_pass_def Let_def say_def pass_lines_def split: sum.splits option.splits)

subsection \<open>The loop\<close>

lemma loop_Cons:
  "batch_loop env B R (i # rest) s =
     (if zero_rows env B i then snd (batch_pass env B R i s)
      else batch_loop env B R rest (snd (batch_pass env B R i s)))"
  using pass_control [of env B R i s]
  by (cases "batch_pass env B R i s") (auto split: control.splits)

lemma written_zero: "zero_rows env B i \<Longrightarrow> written env B i = None"
  by (simp add: written_def zero_rows_def)

lemma succeeded_zero: "zero_rows env B i \<Longrightarrow> succeeded env B R i = None"
  by (simp add: succeeded_def written_zero)

lemma loop_queries:
  "queries (batch_loop env B R idxs s) =
     queries s @ map (\<lambda>i. batch_query B (int i * B)) (attempted env B idxs)"
proof (induction idxs arbitrary: s)
  case Nil
  show ?case by (simp add: attempted_def)
next
  case (Cons i rest)
  show ?case
    unfolding loop_Cons
    by (simp add: Cons.IH pass_queries attempted_def passed_def)
qed

lemma loop_files:
  "files (batch_loop env B R idxs s) =
     files s @ List.map_filter (written env B) (passed env B idxs)"
proof (induction idxs arbitrary: s)
  case Nil
  show ?case by (simp add: passed_def List.map_filter_simps)
next
  case (Cons i rest)
  show ?case
    unfolding loop_Cons
    by (simp add: Cons.IH pass_files passed_def written_zero split: option.splits)
qed

lemma loop_all_data:
  "all_data (batch_loop env B R idxs s) =
     all_data s @ List.map_filter (succeeded env B R) (passed env B idxs)"
proof (induction idxs arbitrary: s)
  case Nil
  show ?case by (simp add: passed_def List.map_filter_simps)
next
  case (Cons i rest)
  show ?case
    unfolding loop_Cons
    by (simp add: Cons.IH pass_all_data passed_def succeeded_zero split: option.splits)
qed

lemma loop_made_dirs: "made_dirs (batch_loop env B R idxs s) = made_dirs s"
proof (induction idxs arbitrary: s)
  case Nil
  show ?case by simp
next
  case (Cons i rest)
  show ?case
    unfolding loop_Cons by (simp add: Cons.IH pass_made_dirs)
qed

lemma loop_printed:
  "printed (batch_loop env B R idxs s) =
     printed s @ concat (map (pass_lines env B R) (attempted env B idxs))"
proof (induction idxs arbitrary: s)
  case Nil
  show ?case by (simp add: attempted_def)
next
  case (Cons i rest)
  show ?case
    unfolding loop_Cons
    by (simp add: Cons.IH pass_printed attempted_def passed_def)
qed

subsection \<open>The passes that run\<close>

lemma passed_Nil: "passed env B [] = []" "attempted env B [] = []"
  by (simp_all add: passed_def attempted_def)

lemma take_upt0: "take m [0..<n] = [0..<min m n]"
  by (cases "m \<le> n") (simp_all add: min_def)

lemma planned_upt: "planned R B = [0..<nat (num_batches R B)]"
  by (simp add: planned_def)

lemma passed_upt:
  assumes "\<And>i. i < k \<Longrightarrow> \<not> zero_rows env B i" "k \<le> n"
  shows "passed env B [0..<n] = [0..<k] @ passed env B [k..<n]"
proof -
  have "[0..<n] = [0..<k] @ [k..<n]"
    using assms(2) by (metis le_add_diff_inverse upt_add_eq_append zero_le)
  moreover have "takeWhile (\<lambda>i. \<not> zero_rows env B i) ([0..<k] @ [k..<n])
      = [0..<k] @ takeWhile (\<lambda>i. \<not> zero_rows env B i) [k..<n]"
    by (rule takeWhile_append2) (simp add: assms(1))
  ultimately show ?thesis
    by (simp add: passed_def)
qed

lemma passed_stop:
  assumes "\<And>i. i < k \<Longrightarrow> \<not> zero_rows env B i" "k < n" "zero_rows env B k"
  shows "passed env B [0..<n] = [0..<k]" "attempted env B [0..<n] = [0..<Suc k]"
proof -
  have "[k..<n] = k # [Suc k..<n]"
    using assms(2) by (simp add: upt_conv_Cons)
  then have "passed env B [k..<n] = []"
    using assms(3) by (simp add: passed_def)
  then show p: "passed env B [0..<n] = [0..<k]"
    using passed_upt [of k env B n] assms(1,2) by simp
  show "attempted env B [0..<n] = [0..<Suc k]"
    using assms(2) by (simp add: attempted_def p take_upt)
qed

lemma passed_go:
  assumes "\<And>i. i < k \<Longrightarrow> \<not> zero_rows env B i" "k < n" "\<not> zero_rows env B k"
  shows "passed env B [0..<n] = [0..<Suc k] @ passed env B [Suc k..<n]"
proof -
  have "\<And>i. i < Suc k \<Longrightarrow> \<not> zero_rows env B i"
    using assms(1,3) by (auto simp add: less_Suc_eq)
  then show ?thesis
    using assms(2) by (intro passed_upt) simp_all
qed

lemma passed_prefix:
  "passed env B [0..<n] = [0..<length (passed env B [0..<n])]"
proof -
  have "length (passed env B [0..<n]) \<le> n"
    unfolding passed_def using length_takeWhile_le [of _ "[0..<n]"] by simp
  moreover have "passed env B [0..<n] = take (length (passed env B [0..<n])) [0..<n]"
    unfolding passed_def by (rule takeWhile_eq_take)
  ultimately show ?thesis
    by (simp add: take_upt0 min_def)
qed

subsection \<open>The run\<close>

lemma say_fields:
  "queries (say m s) = queries s" "files (say m s) = files s"
  "all_data (say m s) = all_data s" "made_dirs (say m s) = made_dirs s"
  "printed (say m s) = printed s @ [m]"
  by (simp_all add: say_def)

lemma loop_start_fields:
  "queries (loop_start env B R) = []" "files (loop_start env B R) = []"
  "all_data (loop_start env B R) = []"
  by (simp_all add: loop_start_def ensure_dir_def say_def init_state_def split: option.splits)

lemma run_unfold:
  assumes "count_rows env = Inr R" "B \<noteq> 0" "dir_ok env"
  shows "batch_import_bigquery_data env B =
           combine_phase env (say ProcessingCompleted
             (batch_loop env B R (planned R B) (loop_start env B R)))"
  using assms
  by (auto simp add: batch_import_bigquery_data_def Let_def dir_ok_def planned_def loop_start_def
      ensure_dir_def split: option.splits)

lemma combine_queries: "queries (snd (combine_phase env s)) = queries s"
  by (simp add: combine_phase_def Let_def say_def split: option.splits)

lemma combine_printed:
  "printed (snd (combine_phase env s)) =
     printed s @
       (if all_data s = [] then []
        else case combined_to_csv env combined_filename (concat (all_data s)) of
               Some e \<Rightarrow> [CreatingCombined]
             | None \<Rightarrow> [CreatingCombined,
                 CombinedSaved combined_filename (length (concat (all_data s)))])"
  by (simp add: combine_phase_def Let_def say_def split: option.splits)

lemma run_queries:
  assumes "count_rows env = Inr R" "B \<noteq> 0" "dir_ok env"
  shows "queries (snd (batch_import_bigquery_data env B)) =
           map (\<lambda>i. batch_query B (int i * B)) (attempted env B (planned R B))"
  by (simp add: run_unfold [OF assms] combine_queries say_fields loop_queries loop_start_fields)

lemma run_result:
  assumes "count_rows env = Inr R" "B \<noteq> 0" "dir_ok env"
  shows "fst (batch_import_bigquery_data env B) =
           (if kept env B R = [] then Inr (PyBool True)
            else case combined_to_csv env combined_filename (concat (kept env B R)) of
                   Some e \<Rightarrow> Inl e | None \<Rightarrow> Inr (PyBool True))"
  by (simp add: run_unfold [OF assms] combine_phase_def Let_def say_fields loop_all_data
        loop_start_fields kept_def split: option.splits)

lemma run_files:
  assumes "count_rows env = Inr R" "B \<noteq> 0" "dir_ok env"
  shows "files (snd (batch_import_bigquery_data env B)) =
           List.map_filter (written env B) (passed env B (planned R B)) @
           (if kept env B R \<noteq> [] \<and> combined_to_csv env combined_filename (concat (kept env B R)) = None
            then [(combined_filename, concat (kept env B R))] else [])"
  by (simp add: run_unfold [OF assms] combine_phase_def Let_def say_fields loop_all_data
        loop_files loop_start_fields kept_def split: option.splits)


lemma in_output_dir_batch: "in_output_dir (batch_filename i n)"
  by (simp add: in_output_dir_def batch_filename_def OUTPUT_DIR_def)

lemma not_in_output_dir_combined: "\<not> in_output_dir combined_filename"
  by (simp add: in_output_dir_def combined_filename_def OUTPUT_DIR_def)

lemma written_in_output_dir: "written env B i = Some f \<Longrightarrow> in_output_dir (fst f)"
  by (auto simp add: written_def in_output_dir_batch split: sum.splits if_splits)

lemma map_filter_written_in_dir:
  "filter (\<lambda>f. in_output_dir (fst f)) (List.map_filter (written env B) idxs)
     = List.map_filter (written env B) idxs"
  by (rule filter_True) (auto simp add: List.map_filter_def written_in_output_dir)

lemma run_batch_artifacts:
  assumes "count_rows env = Inr R" "B \<noteq> 0" "dir_ok env"
  shows "batch_artifacts (snd (batch_import_bigquery_data env B)) =
           List.map_filter (written env B) (passed env B (planned R B))"
  by (simp add: batch_artifacts_def run_files [OF assms] map_filter_written_in_dir
        not_in_output_dir_combined)

lemma run_printed:
  assumes "count_rows env = Inr R" "B \<noteq> 0" "dir_ok env"
  shows "printed (snd (batch_import_bigquery_data env B)) =
           printed (loop_start env B R)
           @ concat (map (pass_lines env B R) (attempted env B (planned R B)))
           @ [ProcessingCompleted]
           @ (if kept env B R = [] then []
              else case combined_to_csv env combined_filename (concat (kept env B R)) of
                     Some e \<Rightarrow> [CreatingCombined]
                   | None \<Rightarrow> [CreatingCombined,
                       CombinedSaved combined_filename (length (concat (kept env B R)))])"
proof -
  have a: "all_data (say ProcessingCompleted
             (batch_loop env B R (planned R B) (loop_start env B R))) = kept env B R"
    by (simp add: say_fields loop_all_data loop_start_fields kept_def)
  show ?thesis
    unfolding run_unfold [OF assms] combine_printed a
    by (simp add: say_fields loop_printed)
qed


section \<open>The claims\<close>

subsection \<open>Planning\<close>






subsection \<open>A failing count query\<close>

text \<open>
  Claim C8. When the count query raises, the exception leaves the export procedure;
  nothing but the first line has been printed (no plan), no batch query has been sent,
  no directory made and no file written.
\<close>

theorem count_failure_is_fatal:
  assumes "count_rows env = Inl e"
  shows "fst (batch_import_bigquery_data env batch_size) = Inl e
       \<and> queries (snd (batch_import_bigquery_data env batch_size)) = []
       \<and> files (snd (batch_import_bigquery_data env batch_size)) = []
       \<and> made_dirs (snd (batch_import_bigquery_data env batch_size)) = []
       \<and> printed (snd (batch_import_bigquery_data env batch_size)) = [CountingRows]"
  using assms
  by (simp add: batch_import_bigquery_data_def Let_def say_def init_state_def)

theorem count_failure_is_fatal_witness:
  "fst (batch_import_bigquery_data ((honest_env [1, 2, 3 :: nat])\<lparr>count_rows := Inl QueryFailed\<rparr>) 2)
     = Inl QueryFailed
   \<and> queries (snd (batch_import_bigquery_data
        ((honest_env [1, 2, 3 :: nat])\<lparr>count_rows := Inl QueryFailed\<rparr>) 2)) = []
   \<and> files (snd (batch_import_bigquery_data
        ((honest_env [1, 2, 3 :: nat])\<lparr>count_rows := Inl QueryFailed\<rparr>) 2)) = []"
  using count_failure_is_fatal
    [of "(honest_env [1, 2, 3 :: nat])\<lparr>count_rows := Inl QueryFailed\<rparr>" QueryFailed 2]
  by (simp add: honest_env_def)

subsection \<open>The value returned\<close>

text \<open>
  Claim C10. Whenever the export procedure returns, it returns \<open>True\<close>: the value
  tells nothing about batches that were skipped. The run of the witness loses every
  batch and still returns \<open>True\<close>.
\<close>

theorem returns_only_True:
  assumes "fst (batch_import_bigquery_data env batch_size) = Inr v"
  shows "v = PyBool True"
  using assms
  by (auto simp add: batch_import_bigquery_data_def combine_phase_def Let_def
      split: sum.splits option.splits if_splits)

theorem returns_only_True_witness:
  "fst (batch_import_bigquery_data broken_env 2) = Inr (PyBool True)
   \<and> files (snd (batch_import_bigquery_data broken_env 2)) = []
   \<and> length (queries (snd (batch_import_bigquery_data broken_env 2))) = 3"
proof -
  have r: "fst (batch_import_bigquery_data broken_env 2) = Inr (PyBool True)"
    by code_simp
  have f: "files (snd (batch_import_bigquery_data broken_env 2)) = []"
    by code_simp
  have q: "length (queries (snd (batch_import_bigquery_data broken_env 2))) = 3"
    by code_simp
  show ?thesis using returns_only_True [OF r] r f q by simp
qed




subsection \<open>Coverage\<close>








subsection \<open>A query that returns no rows\<close>

lemma zero_rows_lines:
  "zero_rows env B k \<Longrightarrow> pass_lines env B R k = [ProcessingBatch (k + 1), ZeroRowsStop (k + 1)]"
  by (simp add: zero_rows_def pass_lines_def)

lemma pass_lines_index:
  "ErrorInBatch j e \<in> set (pass_lines env B R i) \<Longrightarrow> j = i + 1"
  by (auto simp add: pass_lines_def split: sum.splits option.splits if_splits)

lemma loop_start_printed:
  "ErrorInBatch j e \<notin> set (printed (loop_start env B R))"
  by (simp add: loop_start_def ensure_dir_def say_def init_state_def split: option.splits)

text \<open>
  Claim C3. When the query of pass \<open>k\<close> is the first to return zero rows, the queries
  sent are those of the indices \<open>0\<close> to \<open>k\<close> and no more, the files in the batch
  directory are those of passes before \<open>k\<close>, the stop is printed and no error is
  printed for pass \<open>k\<close>, and the run returns \<open>True\<close> (when the write of the combined
  file does not raise).
\<close>

theorem early_termination:
  assumes "count_rows env = Inr total_rows" "batch_size \<noteq> 0" "dir_ok env"
    and "int k < num_batches total_rows batch_size"
    and "zero_rows env batch_size k"
    and "\<And>i. i < k \<Longrightarrow> \<not> zero_rows env batch_size i"
  shows "queries (snd (batch_import_bigquery_data env batch_size))
           = map (\<lambda>i. batch_query batch_size (int i * batch_size)) [0..<Suc k]
       \<and> batch_artifacts (snd (batch_import_bigquery_data env batch_size))
           = List.map_filter (written env batch_size) [0..<k]
       \<and> ZeroRowsStop (k + 1) \<in> set (printed (snd (batch_import_bigquery_data env batch_size)))
       \<and> (\<forall>e. ErrorInBatch (k + 1) e
               \<notin> set (printed (snd (batch_import_bigquery_data env batch_size))))
       \<and> (combined_to_csv env combined_filename (concat (kept env batch_size total_rows)) = None
            \<longrightarrow> fst (batch_import_bigquery_data env batch_size) = Inr (PyBool True))"
proof -
  let ?s = "snd (batch_import_bigquery_data env batch_size)"
  note run = assms(1-3)
  have kn: "k < nat (num_batches total_rows batch_size)"
    using assms(4) by simp
  have p: "passed env batch_size (planned total_rows batch_size) = [0..<k]"
    and a: "attempted env batch_size (planned total_rows batch_size) = [0..<Suc k]"
    unfolding planned_upt using passed_stop [OF assms(6) kn assms(5)] by simp_all
  have q: "queries ?s = map (\<lambda>i. batch_query batch_size (int i * batch_size)) [0..<Suc k]"
    by (simp only: run_queries [OF run] a)
  have f: "batch_artifacts ?s = List.map_filter (written env batch_size) [0..<k]"
    by (simp only: run_batch_artifacts [OF run] p)
  have z: "ZeroRowsStop (k + 1) \<in> set (printed ?s)"
    by (simp add: run_printed [OF run] a zero_rows_lines [OF assms(5)])
  have e: "ErrorInBatch (k + 1) e \<notin> set (printed ?s)" for e
  proof
    assume "ErrorInBatch (k + 1) e \<in> set (printed ?s)"
    then have "\<exists>i < k. ErrorInBatch (k + 1) e \<in> set (pass_lines env batch_size total_rows i)"
      by (auto simp add: run_printed [OF run] a zero_rows_lines [OF assms(5)] loop_start_printed
          split: if_splits option.splits)
    then show False
      using pass_lines_index by fastforce
  qed
  have r: "fst (batch_import_bigquery_data env batch_size) = Inr (PyBool True)"
    if "combined_to_csv env combined_filename (concat (kept env batch_size total_rows)) = None"
    using that by (simp add: run_result [OF run])
  show ?thesis
    using q f z e r by blast
qed

theorem early_termination_witness:
  "map offset (queries (snd (batch_import_bigquery_data racing_env 2))) = [0, 2, 4]
   \<and> batch_artifacts (snd (batch_import_bigquery_data racing_env 2))
       = [(''batch_data/batch_0001_2_rows.csv'', [1, 2]),
          (''batch_data/batch_0002_2_rows.csv'', [3, 4])]
   \<and> ZeroRowsStop 3 \<in> set (printed (snd (batch_import_bigquery_data racing_env 2)))
   \<and> fst (batch_import_bigquery_data racing_env 2) = Inr (PyBool True)"
proof -
  have c: "count_rows racing_env = Inr 6" and d: "dir_ok racing_env"
    by (simp_all add: racing_env_def honest_env_def dir_ok_def)
  have k: "int 2 < num_batches 6 2"
    by (simp add: num_batches_def)
  have z: "zero_rows racing_env 2 2"
    by (simp add: zero_rows_def racing_env_def honest_env_def expected_slice_def batch_query_def)
  have f: "\<not> zero_rows racing_env 2 i" if "i < 2" for i
  proof -
    have "i = 0 \<or> i = 1" using that by auto
    then show ?thesis
      by (auto simp add: zero_rows_def racing_env_def honest_env_def expected_slice_def
          batch_query_def)
  qed
  have w: "combined_to_csv racing_env combined_filename (concat (kept racing_env 2 6)) = None"
    by (simp add: racing_env_def honest_env_def)
  have b: "(2::int) \<noteq> 0" by simp
  note t = early_termination [OF c b d k z f, simplified]
  have m: "List.map_filter (written racing_env 2) [0..<2]
            = [(''batch_data/batch_0001_2_rows.csv'', [1, 2]),
               (''batch_data/batch_0002_2_rows.csv'', [3, 4])]"
    by code_simp
  have q: "map offset (map (\<lambda>i. batch_query 2 (int i * 2)) [0..<Suc 2]) = [0, 2, 4]"
    by code_simp
  show ?thesis
    using t w m q by simp
qed

subsection \<open>A pass that raises\<close>

lemma raised_facts:
  assumes "raised env B k = Some e"
  shows "\<not> zero_rows env B k" "written env B k = None" "succeeded env B R k = None"
    "pass_lines env B R k = [ProcessingBatch (k + 1), ErrorInBatch (k + 1) e]"
  using assms
  by (auto simp add: raised_def zero_rows_def written_def succeeded_def pass_lines_def
      split: sum.splits if_splits)

lemma map_filter_skip:
  "f k = None \<Longrightarrow> List.map_filter f (filter (\<lambda>i. i \<noteq> k) xs) = List.map_filter f xs"
  by (induction xs) (auto simp add: List.map_filter_simps split: option.splits)

lemma set_map_filter: "set (List.map_filter f xs) = {y. \<exists>x \<in> set xs. f x = Some y}"
  by (force simp add: List.map_filter_def image_iff)

lemma count_list_upt: "count_list [0..<n] k = (if k < n then 1 else 0)"
  by (induction n) auto

lemma batch_query_inj: "B \<noteq> 0 \<Longrightarrow> inj (\<lambda>i. batch_query B (int i * B))"
  by (rule injI) (simp add: batch_query_def)

text \<open>
  Claim C2. When pass \<open>k\<close> is reached and its query or its write raises, the error is
  printed, the query of index \<open>k\<close> is sent once, the passes up to \<open>k + 1\<close> are all
  attempted, each file they manage to write is written, what is combined is the rows of
  every kept pass but \<open>k\<close>, and the run still returns \<open>True\<close> (when the write of the
  combined file does not raise).
\<close>

theorem failure_isolation:
  assumes "count_rows env = Inr total_rows" "batch_size \<noteq> 0" "dir_ok env"
    and "int k < num_batches total_rows batch_size"
    and "\<And>i. i < k \<Longrightarrow> \<not> zero_rows env batch_size i"
    and "raised env batch_size k = Some e"
  shows "ErrorInBatch (k + 1) e \<in> set (printed (snd (batch_import_bigquery_data env batch_size)))
       \<and> count_list (queries (snd (batch_import_bigquery_data env batch_size)))
            (batch_query batch_size (int k * batch_size)) = 1
       \<and> take (k + 2) (queries (snd (batch_import_bigquery_data env batch_size)))
            = map (\<lambda>i. batch_query batch_size (int i * batch_size))
                (take (k + 2) (planned total_rows batch_size))
       \<and> (\<forall>j f. j \<le> k + 1 \<and> int j < num_batches total_rows batch_size
                \<and> written env batch_size j = Some f
              \<longrightarrow> f \<in> set (files (snd (batch_import_bigquery_data env batch_size))))
       \<and> kept env batch_size total_rows
            = List.map_filter (succeeded env batch_size total_rows)
                (filter (\<lambda>i. i \<noteq> k) (passed env batch_size (planned total_rows batch_size)))
       \<and> (combined_to_csv env combined_filename (concat (kept env batch_size total_rows)) = None
            \<longrightarrow> fst (batch_import_bigquery_data env batch_size) = Inr (PyBool True)
              \<and> (kept env batch_size total_rows \<noteq> []
                   \<longrightarrow> (combined_filename, concat (kept env batch_size total_rows))
                         \<in> set (files (snd (batch_import_bigquery_data env batch_size)))))"
proof -
  let ?s = "snd (batch_import_bigquery_data env batch_size)"
  let ?n = "nat (num_batches total_rows batch_size)"
  let ?mk = "\<lambda>i. batch_query batch_size (int i * batch_size)"
  note run = assms(1-3)
  note rf = raised_facts [OF assms(6)]
  have kn: "k < ?n"
    using assms(4) by simp
  have p: "passed env batch_size [0..<?n] = [0..<Suc k] @ passed env batch_size [Suc k..<?n]"
    using passed_go [OF assms(5) kn rf(1)] .
  define m where "m = length (passed env batch_size [Suc k..<?n])"
  have a: "attempted env batch_size [0..<?n] = [0..<min (k + 2 + m) ?n]"
    by (simp add: attempted_def p m_def take_upt0)
  have ka: "k \<in> set (attempted env batch_size [0..<?n])"
    using kn by (simp add: a)
  have "ErrorInBatch (k + 1) e \<in> set (pass_lines env batch_size total_rows k)"
    by (simp add: rf(4))
  then have "ErrorInBatch (k + 1) e \<in> set (concat (map (pass_lines env batch_size total_rows)
                (attempted env batch_size (planned total_rows batch_size))))"
    using ka by (simp add: planned_upt del: One_nat_def add_Suc_right) blast
  then have 1: "ErrorInBatch (k + 1) e \<in> set (printed ?s)"
    by (simp add: run_printed [OF run] del: One_nat_def)
  have 2: "count_list (queries ?s) (?mk k) = 1"
    using kn
    by (simp add: run_queries [OF run] planned_upt a
        count_list_map_conv [OF batch_query_inj [OF assms(2)]] count_list_upt)
  have 3: "take (k + 2) (queries ?s) = map ?mk (take (k + 2) (planned total_rows batch_size))"
    by (simp add: run_queries [OF run] planned_upt a take_map take_upt0 min_def)
  have 4: "f \<in> set (files ?s)"
    if "j \<le> k + 1" "int j < num_batches total_rows batch_size"
      "written env batch_size j = Some f" for j f
  proof -
    have jn: "j < ?n" using that(2) by simp
    have "j \<in> set (passed env batch_size (planned total_rows batch_size))"
    proof (cases "j \<le> k")
      case True
      then show ?thesis by (auto simp add: planned_upt p)
    next
      case False
      then have j: "j = Suc k" using that(1) by simp
      have nz: "\<not> zero_rows env batch_size (Suc k)"
        using that(3) written_zero [of env batch_size "Suc k"] j by auto
      have "[Suc k..<?n] = Suc k # [Suc (Suc k)..<?n]"
        using jn j by (simp add: upt_conv_Cons)
      then have "Suc k \<in> set (passed env batch_size [Suc k..<?n])"
        using nz by (simp add: passed_def)
      then show ?thesis by (simp add: planned_upt p j)
    qed
    then show ?thesis
      using that(3) by (auto simp add: run_files [OF run] set_map_filter)
  qed
  have 5: "kept env batch_size total_rows
            = List.map_filter (succeeded env batch_size total_rows)
                (filter (\<lambda>i. i \<noteq> k) (passed env batch_size (planned total_rows batch_size)))"
    unfolding kept_def
    using map_filter_skip [of "succeeded env batch_size total_rows" k] rf(3) [of total_rows]
    by simp
  have 6: "fst (batch_import_bigquery_data env batch_size) = Inr (PyBool True)
             \<and> (kept env batch_size total_rows \<noteq> []
                   \<longrightarrow> (combined_filename, concat (kept env batch_size total_rows)) \<in> set (files ?s))"
    if "combined_to_csv env combined_filename (concat (kept env batch_size total_rows)) = None"
    using that by (simp add: run_result [OF run] run_files [OF run])
  show ?thesis
    using 1 2 3 4 5 6 by blast
qed

theorem failure_isolation_witness:
  "ErrorInBatch 2 QueryFailed \<in> set (printed (snd (batch_import_bigquery_data flaky_env 2)))
   \<and> map offset (queries (snd (batch_import_bigquery_data flaky_env 2))) = [0, 2, 4]
   \<and> files (snd (batch_import_bigquery_data flaky_env 2))
       = [(''batch_data/batch_0001_2_rows.csv'', [1, 2]),
          (''batch_data/batch_0003_1_rows.csv'', [5]),
          (''bigquery_all_data_combined.csv'', [1, 2, 5])]
   \<and> fst (batch_import_bigquery_data flaky_env 2) = Inr (PyBool True)"
proof -
  have c: "count_rows flaky_env = Inr 5" and d: "dir_ok flaky_env"
    by (simp_all add: flaky_env_def honest_env_def dir_ok_def)
  have k: "int 1 < num_batches 5 2"
    by (simp add: num_batches_def)
  have r: "raised flaky_env 2 1 = Some QueryFailed"
    by (simp add: raised_def flaky_env_def honest_env_def)
  have f: "\<not> zero_rows flaky_env 2 i" if "i < 1" for i
    using that
    by (simp add: zero_rows_def flaky_env_def honest_env_def expected_slice_def batch_query_def)
  have w: "combined_to_csv flaky_env combined_filename (concat (kept flaky_env 2 5)) = None"
    by (simp add: flaky_env_def honest_env_def)
  have b: "(2::int) \<noteq> 0" by simp
  note t = failure_isolation [OF c b d k f r]
  have e: "ErrorInBatch 2 QueryFailed
             \<in> set (printed (snd (batch_import_bigquery_data flaky_env 2)))"
    using t by (simp add: numeral_2_eq_2)
  have v: "fst (batch_import_bigquery_data flaky_env 2) = Inr (PyBool True)"
    using t w by simp
  have q: "map offset (queries (snd (batch_import_bigquery_data flaky_env 2))) = [0, 2, 4]"
    by code_simp
  have fl: "files (snd (batch_import_bigquery_data flaky_env 2))
       = [(''batch_data/batch_0001_2_rows.csv'', [1, 2]),
          (''batch_data/batch_0003_1_rows.csv'', [5]),
          (''bigquery_all_data_combined.csv'', [1, 2, 5])]"
    by code_simp
  show ?thesis
    using e v q fl by simp
qed

subsection \<open>The combined file\<close>

lemma map_filter_map_option:
  "List.map_filter (\<lambda>i. map_option g (f i)) xs = map g (List.map_filter f xs)"
  by (induction xs) (simp_all add: List.map_filter_simps split: option.splits)

lemma kept_written:
  assumes "0 < B"
  shows "kept env B R = map snd (List.map_filter (written env B) (passed env B (planned R B)))"
proof (cases "planned R B = []")
  case True
  then show ?thesis
    by (simp add: kept_def passed_Nil List.map_filter_simps)
next
  case False
  then have "0 < num_batches R B"
    by (simp add: planned_def)
  then have "R \<noteq> 0"
    using assms by (auto simp add: num_batches_def div_pos_pos_trivial)
  then have "succeeded env B R = (\<lambda>i. map_option snd (written env B i))"
    by (simp add: succeeded_def fun_eq_iff)
  then show ?thesis
    by (simp only: kept_def map_filter_map_option)
qed

text \<open>
  Claim C4. With the write of the combined file not raising: when some pass was kept,
  the last file written is the combined file, under a name no batch file has, and its
  rows are the frames of the kept passes one after the other, by ascending index; when
  no pass was kept, no combined file is written. With a positive batch size the frames
  kept are the frames of the batch files written, in their order.
\<close>

theorem combined_file_rows:
  assumes "count_rows env = Inr total_rows" "batch_size \<noteq> 0" "dir_ok env"
    and "combined_to_csv env combined_filename (concat (kept env batch_size total_rows)) = None"
  shows "(kept env batch_size total_rows \<noteq> [] \<longrightarrow>
            files (snd (batch_import_bigquery_data env batch_size))
              = batch_artifacts (snd (batch_import_bigquery_data env batch_size))
                @ [(combined_filename, concat (kept env batch_size total_rows))])
       \<and> (kept env batch_size total_rows = [] \<longrightarrow>
            files (snd (batch_import_bigquery_data env batch_size))
              = batch_artifacts (snd (batch_import_bigquery_data env batch_size)))
       \<and> combined_filename
            \<notin> fst ` set (batch_artifacts (snd (batch_import_bigquery_data env batch_size)))
       \<and> kept env batch_size total_rows
            = List.map_filter (succeeded env batch_size total_rows)
                [0..<length (passed env batch_size (planned total_rows batch_size))]
       \<and> (0 < batch_size \<longrightarrow>
            kept env batch_size total_rows
              = map snd (batch_artifacts (snd (batch_import_bigquery_data env batch_size))))"
proof -
  let ?s = "snd (batch_import_bigquery_data env batch_size)"
  note run = assms(1-3)
  have 5: "kept env batch_size total_rows = map snd (batch_artifacts ?s)" if "0 < batch_size"
    by (simp only: kept_written [OF that] run_batch_artifacts [OF run])
  have 1: "files ?s = batch_artifacts ?s @ [(combined_filename, concat (kept env batch_size total_rows))]"
    if "kept env batch_size total_rows \<noteq> []"
    using that assms(4) by (simp add: run_files [OF run] run_batch_artifacts [OF run])
  have 2: "files ?s = batch_artifacts ?s" if "kept env batch_size total_rows = []"
    using that by (simp add: run_files [OF run] run_batch_artifacts [OF run])
  have 3: "combined_filename \<notin> fst ` set (batch_artifacts ?s)"
    using not_in_output_dir_combined by (auto simp add: batch_artifacts_def)
  have 4: "kept env batch_size total_rows
            = List.map_filter (succeeded env batch_size total_rows)
                [0..<length (passed env batch_size (planned total_rows batch_size))]"
    unfolding kept_def planned_upt using passed_prefix by metis
  show ?thesis
    using 1 2 3 4 5 by blast
qed

theorem combined_file_rows_witness:
  "files (snd (batch_import_bigquery_data flaky_env 2))
     = [(''batch_data/batch_0001_2_rows.csv'', [1, 2]),
        (''batch_data/batch_0003_1_rows.csv'', [5]),
        (combined_filename, [1, 2, 5])]
   \<and> kept flaky_env 2 5 = [[1, 2], [5]]
   \<and> files (snd (batch_import_bigquery_data broken_env 2)) = []
   \<and> kept broken_env 2 5 = []"
proof -
  have c: "count_rows flaky_env = Inr 5" and d: "dir_ok flaky_env"
    and c': "count_rows broken_env = Inr 5" and d': "dir_ok broken_env"
    by (simp_all add: flaky_env_def broken_env_def honest_env_def dir_ok_def)
  have b: "(2::int) \<noteq> 0" by simp
  have w: "combined_to_csv flaky_env combined_filename (concat (kept flaky_env 2 5)) = None"
    and w': "combined_to_csv broken_env combined_filename (concat (kept broken_env 2 5)) = None"
    by (simp_all add: flaky_env_def broken_env_def honest_env_def)
  have k: "kept flaky_env 2 5 = [[1, 2], [5]]" and k': "kept broken_env 2 5 = []"
    by code_simp+
  have a: "batch_artifacts (snd (batch_import_bigquery_data flaky_env 2))
            = [(''batch_data/batch_0001_2_rows.csv'', [1, 2]),
               (''batch_data/batch_0003_1_rows.csv'', [5])]"
    and a': "batch_artifacts (snd (batch_import_bigquery_data broken_env 2)) = []"
    by code_simp+
  show ?thesis
    using combined_file_rows [OF c b d w] combined_file_rows [OF c' b d' w'] k k' a a' by simp
qed

subsection \<open>The names of the files\<close>





























subsection \<open>The sample\<close>








end
